theory Spec2Isabelle
  imports Complex_Main "HOL-Library.AList"
begin

section \<open>Python values\<close>

text \<open>
  A number as Python holds it after reading JSON: a float, which may be \<open>nan\<close> or an
  infinity, or an int. A finite float and an int are identified with their value, since
  Python compares them by value (\<open>1 == 1.0\<close>). Ints too large for a float are not
  modelled.
\<close>

datatype pynum = Fin rat | PInf | NInf | NaN

text \<open>
  The values the code receives: the tag filters of a query (the caller's dict) and the
  decoded JSON of a response. A dict is an association list in insertion order with
  distinct keys; JSON keys are strings.
\<close>

datatype pyval =
    PNone
  | PBool bool
  | PNum pynum
  | PStr string
  | PList "pyval list"
  | PDict "(string \<times> pyval) list"

datatype pyerr =
    KeyError
  | TypeError
  | AttributeError
  | ValueError
  | TimeoutError
  | RequestException
  | ClientError
  | ShapelyError

section \<open>Query construction: \<open>OverpassQuery\<close>\<close>

text \<open>
  A component of the bounding box. The box is only ever printed with \<open>str\<close>, which
  tells an int from a float (\<open>48\<close>, \<open>48.0\<close>): an int is given by its value, a
  float by the text \<open>str\<close> prints for it.
\<close>

datatype bound = BInt int | BFloat string

text \<open>
  The fields of \<open>OverpassQuery\<close> that the functions below read. \<open>output\<close> is
  named \<open>output_format\<close> here. The server URL is left out: the answers of the two
  endpoints are arguments of the functions that call them.
\<close>

record query =
  area_name :: string
  tags :: "(string \<times> pyval) list"
  bbox :: "bound list option"
  element_types :: "string list"
  timeout :: int
  output_format :: string
  csv_fields :: "string list option"
  parse_geometry :: bool
  max_retries :: int
  retry_delay :: int

text \<open>\<open>v.startswith("~")\<close> and \<open>"|" in v\<close>.\<close>

definition startswith_tilde :: "string \<Rightarrow> bool" where
  "startswith_tilde v = (case v of [] \<Rightarrow> False | c # _ \<Rightarrow> c = CHR ''~'')"

definition has_bar :: "string \<Rightarrow> bool" where
  "has_bar v = (CHR ''|'' \<in> set v)"

text \<open>
  One pass of the loop body of \<open>_format_tags\<close>: what is appended to \<open>tag_queries\<close>
  for the entry \<open>(k, v)\<close>. \<open>v is True\<close> and \<open>v is False\<close> hold for the two booleans
  only; a value that is neither a boolean nor a string matches no branch.
\<close>

fun tag_query :: "string \<Rightarrow> pyval \<Rightarrow> string list" where
  "tag_query k (PBool True) = [''['' @ k @ '']'']"
| "tag_query k (PBool False) = [''[!'' @ k @ '']'']"
| "tag_query k (PStr v) =
     (if startswith_tilde v then [''['' @ k @ ''~'' @ [CHR 0x22] @ tl v @ [CHR 0x22] @ '']'']
      else if has_bar v then [''['' @ k @ ''~'' @ [CHR 0x22] @ ''^'' @ v @ ''$'' @ [CHR 0x22] @ '']'']
      else [''['' @ k @ ''='' @ [CHR 0x22] @ v @ [CHR 0x22] @ '']''])"
| "tag_query k _ = []"

fun format_tags_loop :: "(string \<times> pyval) list \<Rightarrow> string list \<Rightarrow> string list" where
  "format_tags_loop [] tag_queries = tag_queries"
| "format_tags_loop ((k, v) # rest) tag_queries =
     format_tags_loop rest (tag_queries @ tag_query k v)"

definition format_tags :: "query \<Rightarrow> string" where
  "format_tags q = concat (format_tags_loop (tags q) [])"

text \<open>The defaults of \<open>OverpassQuery.__init__\<close>.\<close>

definition OverpassQuery :: "string \<Rightarrow> (string \<times> pyval) list \<Rightarrow> query" where
  "OverpassQuery area ts =
     \<lparr> area_name = area, tags = ts, bbox = None,
       element_types = [''node'', ''way'', ''relation''], timeout = 25,
       output_format = ''json'', csv_fields = None, parse_geometry = False,
       max_retries = 3, retry_delay = 10 \<rparr>"

text \<open>\<open>sep.join(xs)\<close>, \<open>str\<close> of an int, and \<open>str.strip()\<close> on ASCII text.\<close>

fun join :: "string \<Rightarrow> string list \<Rightarrow> string" where
  "join sep [] = []"
| "join sep [x] = x"
| "join sep (x # y # ys) = x @ sep @ join sep (y # ys)"

fun str_nat :: "nat \<Rightarrow> string" where
  "str_nat n =
     (if n < 10 then [char_of (48 + n)] else str_nat (n div 10) @ [char_of (48 + n mod 10)])"

definition str_int :: "int \<Rightarrow> string" where
  "str_int i = (if i < 0 then ''-'' @ str_nat (nat (- i)) else str_nat (nat i))"

definition is_space :: "char \<Rightarrow> bool" where
  "is_space c = (c \<in> set [CHR 0x09, CHR 0x0A, CHR 0x0B, CHR 0x0C, CHR 0x0D,
                             CHR 0x1C, CHR 0x1D, CHR 0x1E, CHR 0x1F, CHR 0x20])"

definition strip :: "string \<Rightarrow> string" where
  "strip s = rev (dropWhile is_space (rev (dropWhile is_space s)))"

definition build_area_query :: "query \<Rightarrow> string" where
  "build_area_query q =
     (if area_name q = [] then []
      else ''area[name='' @ [CHR 0x22] @ area_name q @ [CHR 0x22] @ ''][admin_level];'')"

text \<open>\<open>str\<close> on a component of the bounding box.\<close>

fun str_bound :: "bound \<Rightarrow> string" where
  "str_bound (BInt i) = str_int i"
| "str_bound (BFloat s) = s"

text \<open>\<open>_build_main_query\<close>. A tuple is true when it is not empty.\<close>

definition build_main_query :: "query \<Rightarrow> pyerr + string" where
  "build_main_query q =
     (let tag_filter = format_tags q in
      case (if bbox q \<noteq> None \<and> bbox q \<noteq> Some []
            then Inr (''('' @ join '','' (map str_bound (the (bbox q))) @ '')'')
            else if area_name q \<noteq> [] then Inr ''(area)''
            else Inl ValueError)
      of Inl e \<Rightarrow> Inl e
       | Inr location \<Rightarrow>
           Inr (join ''\<newline>'' (map (\<lambda>et. et @ tag_filter @ location @ '';'') (element_types q))))"

text \<open>A line break followed by the twelve blanks that indent the templates.\<close>

definition nl :: string where
  "nl = ''\<newline>            ''"

definition build_query :: "query \<Rightarrow> pyerr + string" where
  "build_query q =
     (let area_part = build_area_query q in
      case build_main_query q of
        Inl e \<Rightarrow> Inl e
      | Inr main_part \<Rightarrow>
          if output_format q = ''csv'' \<and> csv_fields q \<noteq> None \<and> csv_fields q \<noteq> Some [] then
            Inr (strip (nl @ ''[out:csv('' @ join '','' (the (csv_fields q)) @ '')][timeout:''
                   @ str_int (timeout q) @ ''];'' @ nl @ area_part @ nl @ ''('' @ nl @ ''    ''
                   @ main_part @ nl @ '');'' @ nl @ ''out center;'' @ nl))
          else if output_format q = ''json'' \<and> parse_geometry q then
            Inr (strip (nl @ ''[out:json][timeout:'' @ str_int (timeout q) @ ''];'' @ nl
                   @ area_part @ nl @ ''('' @ nl @ ''    '' @ main_part @ nl @ '');'' @ nl
                   @ ''out geom;'' @ nl))
          else
            Inr (strip (nl @ ''[out:'' @ output_format q @ ''][timeout:'' @ str_int (timeout q)
                   @ ''];'' @ nl @ area_part @ nl @ ''('' @ nl @ ''    '' @ main_part @ nl
                   @ '');'' @ nl @ ''out body;'' @ nl @ ''>;'' @ nl @ ''out skel qt;'' @ nl)))"

section \<open>Slot gating: \<open>_check_availability\<close> and \<open>_wait_for_slot\<close>\<close>

text \<open>
  What one GET returns: a response with its status code, its text and what decoding its
  body as JSON gives (a value, or the exception the decoder raises), or a failure of the
  request (\<open>requests.RequestException\<close>, \<open>aiohttp.ClientError\<close>; a body that
  cannot be read counts as one).
\<close>

datatype http = Response int string "pyerr + pyval" | Failed

fun contains :: "string \<Rightarrow> string \<Rightarrow> bool" where
  "contains sub [] = (sub = [])"
| "contains sub (c # cs) = (take (length sub) (c # cs) = sub \<or> contains sub cs)"

text \<open>The result is \<open>None\<close> when the status is not 200.\<close>

fun check_availability :: "http \<Rightarrow> bool option" where
  "check_availability (Response status_code text _) =
     (if status_code = 200 then
        (if contains ''Slot available'' text \<or> contains ''available now'' text then Some True
         else if contains ''slots available'' text then Some True
         else Some False)
      else None)"
| "check_availability Failed = Some False"

text \<open>
  \<open>_wait_for_slot\<close>: \<open>status n\<close> is the answer to the \<open>n\<close>-th request to the status
  endpoint. The result carries the number of requests made and the seconds slept.
\<close>

function wait_for_slot_loop ::
  "(nat \<Rightarrow> http) \<Rightarrow> int \<Rightarrow> nat \<Rightarrow> int \<Rightarrow> (pyerr + unit) \<times> nat \<times> int" where
  "wait_for_slot_loop status max_wait polls waited =
     (if waited < max_wait then
        (if check_availability (status polls) = Some True then (Inr (), Suc polls, waited)
         else wait_for_slot_loop status max_wait (Suc polls) (waited + 5))
      else (Inl TimeoutError, polls, waited))"
  by pat_completeness auto
termination
  by (relation "measure (\<lambda>(status, max_wait, polls, waited). nat (max_wait - waited))") auto

definition wait_for_slot :: "(nat \<Rightarrow> http) \<Rightarrow> int \<Rightarrow> (pyerr + unit) \<times> nat \<times> int" where
  "wait_for_slot status max_wait = wait_for_slot_loop status max_wait 0 0"

section \<open>Geometry decoding: \<open>is_valid_geometry\<close> and \<open>json_to_geodataframe\<close>\<close>

text \<open>
  A row of the result is a dict whose values are Python values or, under \<open>geometry\<close>,
  a geometry. \<open>'g\<close> is the type of the geometries of the geometry library.
\<close>

datatype coord = CNum pynum | CSeq "coord list" | COther

datatype 'g field = Val pyval | Geom 'g

type_synonym 'g row = "(string \<times> 'g field) list"

text \<open>
  The libraries shapely, geopandas and pandas are not part of the repository. What the
  code uses of them is taken as parameters, so that every statement below holds whatever
  they accept or reject: the three geometry constructors, the \<open>coordinates\<close> entry of
  \<open>mapping(geom)\<close>, the exception (if any) that
  \<open>gpd.GeoDataFrame(records, geometry="geometry", crs="EPSG:4326")\<close> raises on a list
  of rows, and the exception (if any) that \<open>pd.read_csv\<close> raises on a text.
\<close>

record 'g library =
  Point :: "pyval \<Rightarrow> pyval \<Rightarrow> pyerr + 'g"
  LineString :: "(pynum \<times> pynum) list \<Rightarrow> pyerr + 'g"
  Polygon :: "(pynum \<times> pynum) list \<Rightarrow> pyerr + 'g"
  coordinates :: "'g \<Rightarrow> coord"
  geo_frame_error :: "'g row list \<Rightarrow> pyerr option"
  read_csv_error :: "string \<Rightarrow> pyerr option"

text \<open>\<open>math.isfinite\<close> on a float.\<close>

fun finite_num :: "pynum \<Rightarrow> bool" where
  "finite_num (Fin _) = True"
| "finite_num _ = False"

text \<open>
  \<open>check_coords\<close> inside \<open>is_valid_geometry\<close>: a number must be finite, a list or tuple
  must hold only valid entries, anything else (also a missing \<open>coordinates\<close> entry) is
  invalid.
\<close>

fun check_coords :: "coord \<Rightarrow> bool" where
  "check_coords (CNum c) = finite_num c"
| "check_coords (CSeq cs) = list_all check_coords cs"
| "check_coords COther = False"

definition is_valid_geometry :: "'g library \<Rightarrow> 'g \<Rightarrow> bool" where
  "is_valid_geometry lib geom = check_coords (coordinates lib geom)"

text \<open>
  \<open>x[key]\<close> with a string key: only a dict can answer, and it raises \<open>KeyError\<close> when
  the key is missing.
\<close>

fun subscript :: "pyval \<Rightarrow> string \<Rightarrow> pyerr + pyval" where
  "subscript (PDict d) key = (case map_of d key of None \<Rightarrow> Inl KeyError | Some v \<Rightarrow> Inr v)"
| "subscript _ key = Inl TypeError"

text \<open>\<open>math.isfinite\<close> on a value: a boolean is an int in Python, other values raise.\<close>

fun isfinite :: "pyval \<Rightarrow> pyerr + bool" where
  "isfinite (PNum n) = Inr (finite_num n)"
| "isfinite (PBool _) = Inr True"
| "isfinite _ = Inl TypeError"

text \<open>The number a finite value stands for (\<open>True\<close> is 1, \<open>False\<close> is 0).\<close>

fun num_of :: "pyval \<Rightarrow> pynum" where
  "num_of (PNum n) = n"
| "num_of (PBool b) = Fin (if b then 1 else 0)"
| "num_of _ = NaN"

text \<open>What a \<open>for\<close> loop over a value visits: a dict gives its keys, a string its characters.\<close>

fun iter_items :: "pyval \<Rightarrow> pyerr + pyval list" where
  "iter_items (PList xs) = Inr xs"
| "iter_items (PDict d) = Inr (map (\<lambda>(k, v). PStr k) d)"
| "iter_items (PStr s) = Inr (map (\<lambda>c. PStr [c]) s)"
| "iter_items _ = Inl TypeError"

text \<open>
  The list comprehension of the \<open>way\<close> branch. For each point the condition reads
  \<open>pt["lon"]\<close>, tests it, and only when it is finite reads and tests \<open>pt["lat"]\<close>
  (\<open>and\<close> stops at the first false operand).
\<close>

fun way_coords :: "pyval list \<Rightarrow> pyerr + (pynum \<times> pynum) list" where
  "way_coords [] = Inr []"
| "way_coords (pt # pts) =
     (case subscript pt ''lon'' of
        Inl e \<Rightarrow> Inl e
      | Inr lon \<Rightarrow>
          (case isfinite lon of
             Inl e \<Rightarrow> Inl e
           | Inr False \<Rightarrow> way_coords pts
           | Inr True \<Rightarrow>
               (case subscript pt ''lat'' of
                  Inl e \<Rightarrow> Inl e
                | Inr lat \<Rightarrow>
                    (case isfinite lat of
                       Inl e \<Rightarrow> Inl e
                     | Inr False \<Rightarrow> way_coords pts
                     | Inr True \<Rightarrow>
                         (case way_coords pts of
                            Inl e \<Rightarrow> Inl e
                          | Inr coords \<Rightarrow> Inr ((num_of lon, num_of lat) # coords))))))"

text \<open>
  The first part of the loop body: the geometry of one element. \<open>Inr None\<close> is a
  \<open>continue\<close> or a geometry left at \<open>None\<close>; \<open>Inl e\<close> is an exception.
\<close>

definition way_geometry :: "'g library \<Rightarrow> (string \<times> pyval) list \<Rightarrow> pyerr + 'g option" where
  "way_geometry lib el =
     (case iter_items (case map_of el ''geometry'' of None \<Rightarrow> PList [] | Some g \<Rightarrow> g) of
        Inl e \<Rightarrow> Inl e
      | Inr pts \<Rightarrow>
          (case way_coords pts of
             Inl e \<Rightarrow> Inl e
           | Inr coords \<Rightarrow>
               if coords = [] then Inr None
               else if hd coords = last coords \<and> length coords \<ge> 3
                 then map_sum id Some (Polygon lib coords)
                 else map_sum id Some (LineString lib coords)))"

definition element_geometry :: "'g library \<Rightarrow> (string \<times> pyval) list \<Rightarrow> pyerr + 'g option" where
  "element_geometry lib el =
     (case map_of el ''type'' of
        None \<Rightarrow> Inl KeyError
      | Some t \<Rightarrow>
          if t = PStr ''node'' then
            (if ''lat'' \<in> fst ` set el \<and> ''lon'' \<in> fst ` set el
             then map_sum id Some (Point lib (the (map_of el ''lon'')) (the (map_of el ''lat'')))
             else Inr None)
          else if t = PStr ''way'' then way_geometry lib el
          else if t = PStr ''relation'' then Inr None
          else Inr None)"

text \<open>
  A row of the result: the dict \<open>{"id": el["id"], **tags, "geometry": geom}\<close>. A dict
  display writes its entries from left to right, a later entry replacing the value of an
  equal earlier key.
\<close>

fun merge_tags :: "'g row \<Rightarrow> (string \<times> pyval) list \<Rightarrow> 'g row" where
  "merge_tags r [] = r"
| "merge_tags r ((k, v) # ts) = merge_tags (AList.update k (Val v) r) ts"

definition make_record :: "(string \<times> pyval) list \<Rightarrow> 'g \<Rightarrow> pyerr + 'g row" where
  "make_record el geom =
     (let tags = (case map_of el ''tags'' of None \<Rightarrow> PDict [] | Some t \<Rightarrow> t) in
      case map_of el ''id'' of
        None \<Rightarrow> Inl KeyError
      | Some i \<Rightarrow>
          (case tags of
             PDict ts \<Rightarrow> Inr (AList.update ''geometry'' (Geom geom) (merge_tags [(''id'', Val i)] ts))
           | _ \<Rightarrow> Inl TypeError))"

text \<open>The body of the \<open>try\<close> block for one element.\<close>

definition decode_element :: "'g library \<Rightarrow> pyval \<Rightarrow> pyerr + 'g row option" where
  "decode_element lib e =
     (case e of
        PDict el \<Rightarrow>
          (case element_geometry lib el of
             Inl err \<Rightarrow> Inl err
           | Inr None \<Rightarrow> Inr None
           | Inr (Some geom) \<Rightarrow>
               if \<not> is_valid_geometry lib geom then Inr None
               else map_sum id Some (make_record el geom))
      | _ \<Rightarrow> Inl TypeError)"

text \<open>
  The loop with its handler. The handler prints \<open>el.get('id')\<close>, which itself raises
  \<open>AttributeError\<close> when the element is not a dict: that exception leaves the function.
  The state is the list of rows and the list of printed diagnostics.
\<close>

fun decode_loop ::
  "'g library \<Rightarrow> pyval list \<Rightarrow> 'g row list \<Rightarrow> (pyval option \<times> pyerr) list
     \<Rightarrow> pyerr + 'g row list \<times> (pyval option \<times> pyerr) list" where
  "decode_loop lib [] records printed = Inr (records, printed)"
| "decode_loop lib (e # elements) records printed =
     (case decode_element lib e of
        Inr None \<Rightarrow> decode_loop lib elements records printed
      | Inr (Some r) \<Rightarrow> decode_loop lib elements (records @ [r]) printed
      | Inl err \<Rightarrow>
          (case e of
             PDict el \<Rightarrow> decode_loop lib elements records (printed @ [(map_of el ''id'', err)])
           | _ \<Rightarrow> Inl AttributeError))"

text \<open>The truth value of a Python value (\<open>if not elements\<close>).\<close>

fun truthy :: "pyval \<Rightarrow> bool" where
  "truthy PNone = False"
| "truthy (PBool b) = b"
| "truthy (PNum n) = (n \<noteq> Fin 0)"
| "truthy (PStr s) = (s \<noteq> [])"
| "truthy (PList xs) = (xs \<noteq> [])"
| "truthy (PDict d) = (d \<noteq> [])"

text \<open>
  \<open>json_to_geodataframe\<close>, with the diagnostics it prints. A frame that geopandas
  builds is identified with the list of its rows; the frame built for a batch without
  elements has no rows. After the loop the constructor is called on \<open>records\<close>, also
  when the loop kept none, and what it raises leaves the function.
\<close>

definition json_to_geodataframe_log ::
  "'g library \<Rightarrow> pyval \<Rightarrow> pyerr + 'g row list \<times> (pyval option \<times> pyerr) list" where
  "json_to_geodataframe_log lib osm_json =
     (case osm_json of
        PDict d \<Rightarrow>
          (let elements = (case map_of d ''elements'' of None \<Rightarrow> PList [] | Some es \<Rightarrow> es) in
           if \<not> truthy elements then Inr ([], [])
           else (case iter_items elements of
                   Inl e \<Rightarrow> Inl e
                 | Inr es \<Rightarrow>
                     (case decode_loop lib es [] [] of
                        Inl e \<Rightarrow> Inl e
                      | Inr (records, printed) \<Rightarrow>
                          (case geo_frame_error lib records of
                             Some e \<Rightarrow> Inl e
                           | None \<Rightarrow> Inr (records, printed)))))
      | _ \<Rightarrow> Inl AttributeError)"

definition json_to_geodataframe :: "'g library \<Rightarrow> pyval \<Rightarrow> pyerr + 'g row list" where
  "json_to_geodataframe lib osm_json = map_sum id fst (json_to_geodataframe_log lib osm_json)"

section \<open>Execution: \<open>OverpassQuery.run\<close> and \<open>AsyncOverpassClient\<close>\<close>

text \<open>
  What a query returns on status 200. The table pandas reads from a CSV text is
  identified with the text. \<open>response.json()\<close> is called only for the \<open>json\<close>
  output.
\<close>

datatype 'g result = DataFrame string | Data pyval | GeoDataFrame "'g row list" | Text string

definition on_success ::
  "'g library \<Rightarrow> query \<Rightarrow> string \<Rightarrow> pyerr + pyval \<Rightarrow> pyerr + 'g result" where
  "on_success lib q text js =
     (if output_format q = ''csv'' then
        (case read_csv_error lib text of Some e \<Rightarrow> Inl e | None \<Rightarrow> Inr (DataFrame text))
      else if output_format q = ''json'' then
        (case js of
           Inl e \<Rightarrow> Inl e
         | Inr data \<Rightarrow>
             if parse_geometry q then map_sum id GeoDataFrame (json_to_geodataframe lib data)
             else Inr (Data data))
      else Inr (Text text))"

text \<open>
  The outcome of one execution: the value returned (\<open>Inr None\<close> is Python's \<open>None\<close>) or
  the exception raised, with the requests sent to the status endpoint, the requests sent
  to the server, and the delays slept between attempts.
\<close>

record 'g outcome =
  returned :: "pyerr + 'g result option"
  status_requests :: nat
  requests :: nat
  sleeps :: "int list"

text \<open>
  The retry loop of \<open>run\<close>; \<open>server n\<close> is the answer to the \<open>n\<close>-th request. The first
  argument counts the iterations of \<open>range(max_retries)\<close> still to come.
  \<open>time.sleep\<close> raises \<open>ValueError\<close> on a negative delay.
\<close>

fun run_attempts ::
  "'g library \<Rightarrow> query \<Rightarrow> (nat \<Rightarrow> http) \<Rightarrow> nat \<Rightarrow> nat \<Rightarrow> int list
     \<Rightarrow> (pyerr + 'g result option) \<times> nat \<times> int list" where
  "run_attempts lib q server 0 sent slept = (Inr None, sent, slept)"
| "run_attempts lib q server (Suc n) sent slept =
     (let retry = (if retry_delay q < 0 then (Inl ValueError, Suc sent, slept)
                   else run_attempts lib q server n (Suc sent) (slept @ [retry_delay q])) in
      case server sent of
        Failed \<Rightarrow> retry
      | Response status_code text js \<Rightarrow>
          if status_code = 200 then
            (case on_success lib q text js of
               Inr r \<Rightarrow> (Inr (Some r), Suc sent, slept)
             | Inl e \<Rightarrow> if e = RequestException then retry else (Inl e, Suc sent, slept))
          else if status_code \<in> {429, 500, 503} then retry
          else (Inr None, Suc sent, slept))"

definition run ::
  "'g library \<Rightarrow> query \<Rightarrow> (nat \<Rightarrow> http) \<Rightarrow> (nat \<Rightarrow> http) \<Rightarrow> 'g outcome" where
  "run lib q status server =
     (case wait_for_slot status 60 of
        (Inl e, polls, waited) \<Rightarrow>
          \<lparr> returned = Inl e, status_requests = polls, requests = 0, sleeps = [] \<rparr>
      | (Inr _, polls, waited) \<Rightarrow>
          (case build_query q of
             Inl e \<Rightarrow> \<lparr> returned = Inl e, status_requests = polls, requests = 0, sleeps = [] \<rparr>
           | Inr query \<Rightarrow>
               (case run_attempts lib q server (nat (max_retries q)) 0 [] of
                  (r, sent, slept) \<Rightarrow>
                    \<lparr> returned = r, status_requests = polls, requests = sent, sleeps = slept \<rparr>)))"

text \<open>
  The loop of \<open>AsyncOverpassClient._run_query\<close>. Falling off the end of the function
  returns \<open>None\<close>. \<open>asyncio.sleep\<close> accepts a negative delay.
\<close>

fun run_query_attempts ::
  "'g library \<Rightarrow> query \<Rightarrow> (nat \<Rightarrow> http) \<Rightarrow> nat \<Rightarrow> nat \<Rightarrow> int list
     \<Rightarrow> (pyerr + 'g result option) \<times> nat \<times> int list" where
  "run_query_attempts lib q session 0 sent slept = (Inr None, sent, slept)"
| "run_query_attempts lib q session (Suc n) sent slept =
     (let retry = run_query_attempts lib q session n (Suc sent) (slept @ [retry_delay q]) in
      case session sent of
        Failed \<Rightarrow> retry
      | Response status text js \<Rightarrow>
          if status = 200 then
            (case on_success lib q text js of
               Inr r \<Rightarrow> (Inr (Some r), Suc sent, slept)
             | Inl e \<Rightarrow> if e = ClientError then retry else (Inl e, Suc sent, slept))
          else retry)"

definition run_query ::
  "'g library \<Rightarrow> query \<Rightarrow> (nat \<Rightarrow> http) \<Rightarrow> 'g outcome" where
  "run_query lib q session =
     (case build_query q of
        Inl e \<Rightarrow> \<lparr> returned = Inl e, status_requests = 0, requests = 0, sleeps = [] \<rparr>
      | Inr query \<Rightarrow>
          (case run_query_attempts lib q session (nat (max_retries q)) 0 [] of
             (r, sent, slept) \<Rightarrow>
               \<lparr> returned = r, status_requests = 0, requests = sent, sleeps = slept \<rparr>))"

text \<open>
  \<open>asyncio.gather\<close> with its default \<open>return_exceptions=False\<close>: the values in the
  order of the awaitables, or the exception of one of them. When several raise, the one
  that surfaces is the earliest in time; the model takes the first in argument order.
\<close>

fun gather :: "(pyerr + 'a) list \<Rightarrow> pyerr + 'a list" where
  "gather [] = Inr []"
| "gather (x # xs) =
     (case x of
        Inl e \<Rightarrow> Inl e
      | Inr v \<Rightarrow> (case gather xs of Inl e \<Rightarrow> Inl e | Inr vs \<Rightarrow> Inr (v # vs)))"

text \<open>
  \<open>run_all\<close> of a client made by \<open>AsyncOverpassClient(max_concurrent)\<close>; each query
  comes with the answers the server gives to its own requests. Every query acquires a
  permit of the semaphore before it starts and releases it when it ends, so that with at
  least one permit every query gets its turn. With no permit the first \<open>acquire\<close> waits
  for ever and \<open>run_all\<close> does not return, which is the value \<open>None\<close>. A negative
  \<open>max_concurrent\<close> is refused by \<open>asyncio.Semaphore\<close> when the client is made.
\<close>

definition run_all ::
  "nat \<Rightarrow> 'g library \<Rightarrow> (query \<times> (nat \<Rightarrow> http)) list
     \<Rightarrow> (pyerr + 'g result option list) option" where
  "run_all max_concurrent lib queries =
     (if max_concurrent = 0 \<and> queries \<noteq> [] then None
      else Some (gather (map (\<lambda>(q, session). returned (run_query lib q session)) queries)))"

section \<open>Stand-ins for the libraries\<close>

text \<open>
  Used to evaluate examples. As in shapely 2, coordinates must be numbers, a line needs
  two points and a ring four. As in geopandas, a frame cannot be built from an empty list
  of rows, which has no \<open>geometry\<close> column; as in pandas, an empty text cannot be read as
  a table.
\<close>

datatype geometry =
    GPoint pynum pynum
  | GLineString "(pynum \<times> pynum) list"
  | GPolygon "(pynum \<times> pynum) list"

definition pair_coord :: "pynum \<times> pynum \<Rightarrow> coord" where
  "pair_coord p = CSeq [CNum (fst p), CNum (snd p)]"

fun geometry_coordinates :: "geometry \<Rightarrow> coord" where
  "geometry_coordinates (GPoint x y) = CSeq [CNum x, CNum y]"
| "geometry_coordinates (GLineString cs) = CSeq (map pair_coord cs)"
| "geometry_coordinates (GPolygon cs) = CSeq [CSeq (map pair_coord cs)]"

definition plain_library :: "geometry library" where
  "plain_library =
     \<lparr> Point = (\<lambda>x y. if isfinite x = Inl TypeError \<or> isfinite y = Inl TypeError
                        then Inl TypeError else Inr (GPoint (num_of x) (num_of y))),
       LineString = (\<lambda>cs. if length cs < 2 then Inl ShapelyError else Inr (GLineString cs)),
       Polygon = (\<lambda>cs. if length cs < 4 then Inl ValueError else Inr (GPolygon cs)),
       coordinates = geometry_coordinates,
       geo_frame_error = (\<lambda>records. if records = [] then Some ValueError else None),
       read_csv_error = (\<lambda>text. if text = [] then Some ValueError else None) \<rparr>"

text \<open>
  Two status endpoints for the examples: one that never has a free slot, and one whose
  \<open>k\<close>-th answer is the first to report one.
\<close>

definition always_busy :: "nat \<Rightarrow> http" where
  "always_busy n = Response 200 ''Rate limit: 2'' (Inr PNone)"

definition free_from :: "nat \<Rightarrow> nat \<Rightarrow> http" where
  "free_from k n =
     (if n < k then Response 200 ''Rate limit: 2'' (Inr PNone)
      else Response 200 ''2 slots available now.'' (Inr PNone))"

section \<open>Reading the decoder's results\<close>

text \<open>The numbers at the leaves of a coordinate structure, nested rings included.\<close>

fun numbers :: "coord \<Rightarrow> pynum list" where
  "numbers (CNum c) = [c]"
| "numbers (CSeq cs) = concat (map numbers cs)"
| "numbers COther = []"

text \<open>
  A point of a way as the wire format describes it: a dict that carries a number under
  \<open>lon\<close> and a number under \<open>lat\<close>.
\<close>

fun lon_lat :: "pyval \<Rightarrow> (pynum \<times> pynum) option" where
  "lon_lat (PDict d) =
     (case (map_of d ''lon'', map_of d ''lat'') of
        (Some (PNum x), Some (PNum y)) \<Rightarrow> Some (x, y)
      | _ \<Rightarrow> None)"
| "lon_lat _ = None"

text \<open>The points of a list that the filter of the \<open>way\<close> branch keeps.\<close>

definition finite_points :: "(pynum \<times> pynum) list \<Rightarrow> (pynum \<times> pynum) list" where
  "finite_points ps = filter (\<lambda>(x, y). finite_num x \<and> finite_num y) ps"

text \<open>
  A point whose missing key is looked up: a dict without \<open>lon\<close>, or a dict without
  \<open>lat\<close> whose \<open>lon\<close> passes the finiteness test.
\<close>

fun lacks_key :: "pyval \<Rightarrow> bool" where
  "lacks_key (PDict d) =
     (case map_of d ''lon'' of
        None \<Rightarrow> True
      | Some lon \<Rightarrow> isfinite lon = Inr True \<and> map_of d ''lat'' = None)"
| "lacks_key _ = False"

text \<open>Elements for the examples.\<close>

definition pt :: "rat \<Rightarrow> rat \<Rightarrow> pyval" where
  "pt x y = PDict [(''lat'', PNum (Fin y)), (''lon'', PNum (Fin x))]"

definition way_element :: "pyval list \<Rightarrow> pyval" where
  "way_element pts =
     PDict [(''type'', PStr ''way''), (''id'', PNum (Fin 42)), (''geometry'', PList pts),
            (''tags'', PDict [(''highway'', PStr ''path'')])]"

definition node_element :: "pynum \<Rightarrow> pynum \<Rightarrow> (string \<times> pyval) list \<Rightarrow> pyval" where
  "node_element x y ts =
     PDict [(''type'', PStr ''node''), (''id'', PNum (Fin 7)), (''lat'', PNum y),
            (''lon'', PNum x), (''tags'', PDict ts)]"

text \<open>
  Servers for the examples: one that cannot be reached, one that answers every request
  with the same status, and one that gives the answers of a list in turn and cannot be
  reached after them.
\<close>

definition unreachable :: "nat \<Rightarrow> http" where
  "unreachable n = Failed"

definition always_status :: "int \<Rightarrow> nat \<Rightarrow> http" where
  "always_status code n = Response code ''{}'' (Inr (PDict []))"

definition answers :: "http list \<Rightarrow> nat \<Rightarrow> http" where
  "answers rs n = (if n < length rs then rs ! n else Failed)"

section \<open>Properties of tag rendering\<close>

lemma format_tags_loop_acc:
  "format_tags_loop ts acc = acc @ concat (map (\<lambda>(k, v). tag_query k v) ts)"
  by (induction ts arbitrary: acc) auto

lemma concat_tag_queries:
  "concat (concat (map (\<lambda>(k, v). tag_query k v) ts)) =
   concat (map (\<lambda>(k, v). concat (tag_query k v)) ts)"
  by (induction ts) auto

lemma format_tags_concat:
  "format_tags q = concat (map (\<lambda>(k, v). concat (tag_query k v)) (tags q))"
  by (simp add: format_tags_def format_tags_loop_acc concat_tag_queries)

text \<open>
  Claim C4. \<open>_format_tags\<close> renders each entry by its value, \<open>True\<close> as \<open>[k]\<close>,
  \<open>False\<close> as \<open>[!k]\<close>, a string starting with \<open>~\<close> as \<open>[k~"p"]\<close> with the rest of the
  string as the pattern, any other string containing \<open>|\<close> as \<open>[k~"^v$"]\<close>, any other
  string as \<open>[k="v"]\<close>, and joins the entries in the stored order with nothing between
  them.
\<close>

theorem format_tags_entries:
  "format_tags (q\<lparr>tags := []\<rparr>) = []
   \<and> format_tags (q\<lparr>tags := (k, PBool True) # ts\<rparr>)
       = ''['' @ k @ '']'' @ format_tags (q\<lparr>tags := ts\<rparr>)
   \<and> format_tags (q\<lparr>tags := (k, PBool False) # ts\<rparr>)
       = ''[!'' @ k @ '']'' @ format_tags (q\<lparr>tags := ts\<rparr>)
   \<and> format_tags (q\<lparr>tags := (k, PStr (CHR ''~'' # p)) # ts\<rparr>)
       = ''['' @ k @ ''~'' @ [CHR 0x22] @ p @ [CHR 0x22] @ '']'' @ format_tags (q\<lparr>tags := ts\<rparr>)
   \<and> (take 1 v \<noteq> ''~'' \<and> CHR ''|'' \<in> set v \<longrightarrow>
        format_tags (q\<lparr>tags := (k, PStr v) # ts\<rparr>)
        = ''['' @ k @ ''~'' @ [CHR 0x22] @ ''^'' @ v @ ''$'' @ [CHR 0x22] @ '']''
          @ format_tags (q\<lparr>tags := ts\<rparr>))
   \<and> (take 1 v \<noteq> ''~'' \<and> CHR ''|'' \<notin> set v \<longrightarrow>
        format_tags (q\<lparr>tags := (k, PStr v) # ts\<rparr>)
        = ''['' @ k @ ''='' @ [CHR 0x22] @ v @ [CHR 0x22] @ '']''
          @ format_tags (q\<lparr>tags := ts\<rparr>))"
  by (cases v) (auto simp: format_tags_concat startswith_tilde_def has_bar_def)

theorem format_tags_entries_witness:
  "format_tags ((OverpassQuery ''Berlin'' [])\<lparr>tags :=
       [(''amenity'', PStr ''hospital|clinic''), (''k'', PStr ''~foo''),
        (''name'', PStr ''bar''), (''shop'', PBool True), (''fee'', PBool False)]\<rparr>)
   = ''[amenity~'' @ [CHR 0x22] @ ''^hospital|clinic$'' @ [CHR 0x22] @ ''][k~'' @ [CHR 0x22]
     @ ''foo'' @ [CHR 0x22] @ ''][name='' @ [CHR 0x22] @ ''bar'' @ [CHR 0x22] @ ''][shop][!fee]''"
  using
    format_tags_entries [where q = "OverpassQuery ''Berlin'' []" and k = "''fee''"
      and ts = "[]" and v = "''''"]
    format_tags_entries [where q = "OverpassQuery ''Berlin'' []" and k = "''shop''"
      and ts = "[(''fee'', PBool False)]" and v = "''''"]
    format_tags_entries [where q = "OverpassQuery ''Berlin'' []" and k = "''name''"
      and ts = "[(''shop'', PBool True), (''fee'', PBool False)]" and v = "''bar''"]
    format_tags_entries [where q = "OverpassQuery ''Berlin'' []" and k = "''k''"
      and ts = "[(''name'', PStr ''bar''), (''shop'', PBool True), (''fee'', PBool False)]"
      and p = "''foo''" and v = "''''"]
    format_tags_entries [where q = "OverpassQuery ''Berlin'' []" and k = "''amenity''"
      and ts = "[(''k'', PStr ''~foo''), (''name'', PStr ''bar''), (''shop'', PBool True),
                 (''fee'', PBool False)]"
      and v = "''hospital|clinic''"]
  by simp

text \<open>
  Claim C10. An entry whose value is neither a boolean nor a string contributes nothing
  to the rendered filter, wherever it stands in the mapping.
\<close>

theorem format_tags_omits_other_values:
  "(\<forall>b. v \<noteq> PBool b) \<Longrightarrow> (\<forall>s. v \<noteq> PStr s) \<Longrightarrow>
   format_tags (q\<lparr>tags := ts @ (k, v) # us\<rparr>) = format_tags (q\<lparr>tags := ts @ us\<rparr>)"
  by (cases v) (auto simp: format_tags_concat)

theorem format_tags_omits_other_values_witness:
  "format_tags ((OverpassQuery ''Berlin'' [])\<lparr>tags :=
       [(''amenity'', PStr ''cafe''), (''level'', PNum (Fin 2)), (''fee'', PBool False)]\<rparr>)
     = ''[amenity='' @ [CHR 0x22] @ ''cafe'' @ [CHR 0x22] @ ''][!fee]''
   \<and> format_tags ((OverpassQuery ''Berlin'' [])\<lparr>tags := [(''name'', PNone)]\<rparr>) = []"
  using
    format_tags_omits_other_values [where v = "PNum (Fin 2)" and q = "OverpassQuery ''Berlin'' []"
      and ts = "[(''amenity'', PStr ''cafe'')]" and k = "''level''"
      and us = "[(''fee'', PBool False)]"]
    format_tags_omits_other_values [where v = PNone and q = "OverpassQuery ''Berlin'' []"
      and ts = "[]" and k = "''name''" and us = "[]"]
  by (simp add: format_tags_concat startswith_tilde_def has_bar_def)

section \<open>Properties of slot gating\<close>

lemma wait_loop_never:
  "(\<And>n. check_availability (status n) \<noteq> Some True) \<Longrightarrow>
   wait_for_slot_loop status max_wait polls waited =
     (Inl TimeoutError, polls + nat ((max_wait - waited + 4) div 5),
      waited + 5 * int (nat ((max_wait - waited + 4) div 5)))"
proof (induction status max_wait polls waited rule: wait_for_slot_loop.induct)
  case (1 status max_wait polls waited)
  show ?case
  proof (cases "waited < max_wait")
    case True
    then have step: "nat ((max_wait - waited + 4) div 5)
        = Suc (nat ((max_wait - (waited + 5) + 4) div 5))"
      by linarith
    from True "1.prems" have "wait_for_slot_loop status max_wait polls waited
        = wait_for_slot_loop status max_wait (Suc polls) (waited + 5)"
      by (subst wait_for_slot_loop.simps) simp
    also have "\<dots> = (Inl TimeoutError, Suc polls + nat ((max_wait - (waited + 5) + 4) div 5),
        (waited + 5) + 5 * int (nat ((max_wait - (waited + 5) + 4) div 5)))"
      using "1.IH" [OF True] "1.prems" by simp
    finally show ?thesis unfolding step by simp
  next
    case False
    then have "nat ((max_wait - waited + 4) div 5) = 0" by linarith
    with False show ?thesis by (subst wait_for_slot_loop.simps) simp
  qed
qed

lemma wait_loop_first:
  "check_availability (status (polls + k)) = Some True \<Longrightarrow>
   (\<And>j. j < k \<Longrightarrow> check_availability (status (polls + j)) \<noteq> Some True) \<Longrightarrow>
   waited + 5 * int k < max_wait \<Longrightarrow>
   wait_for_slot_loop status max_wait polls waited = (Inr (), Suc (polls + k), waited + 5 * int k)"
proof (induction k arbitrary: polls waited)
  case 0
  then show ?case by (subst wait_for_slot_loop.simps) simp
next
  case (Suc k)
  from Suc.prems(2) [of 0] have busy: "check_availability (status polls) \<noteq> Some True" by simp
  from Suc.prems(3) have lt: "waited < max_wait" by linarith
  have "wait_for_slot_loop status max_wait (Suc polls) (waited + 5)
      = (Inr (), Suc (Suc polls + k), (waited + 5) + 5 * int k)"
  proof (rule Suc.IH)
    show "check_availability (status (Suc polls + k)) = Some True" using Suc.prems(1) by simp
    show "check_availability (status (Suc polls + j)) \<noteq> Some True" if "j < k" for j
      using Suc.prems(2) [of "Suc j"] that by simp
    show "waited + 5 + 5 * int k < max_wait" using Suc.prems(3) by simp
  qed
  with busy lt show ?case by (subst wait_for_slot_loop.simps) simp
qed

text \<open>
  Claim C5, as stated, fails: with \<open>max_wait = 7\<close> and no slot ever free, two requests are
  made and the timeout comes after 10 seconds of sleep, not at 7.
\<close>

theorem wait_for_slot_late_counterexample:
  "check_availability (always_busy 0) \<noteq> Some True
   \<and> check_availability (always_busy 1) \<noteq> Some True
   \<and> wait_for_slot always_busy 7 = (Inl TimeoutError, 2, 10)"
  by (simp add: wait_for_slot_def always_busy_def)

text \<open>
  Claim C5, amended. When no answer of the status endpoint reports a free slot,
  \<open>_wait_for_slot\<close> raises \<open>TimeoutError\<close> after \<open>k\<close> requests and \<open>5 * k\<close> seconds
  of sleep, where \<open>k = max(0, ceil(max_wait / 5))\<close>, written \<open>nat ((max_wait + 4) div 5)\<close>,
  for every \<open>max_wait\<close>. With \<open>max_wait \<le> 0\<close> that is at once, without a request.
  With \<open>max_wait > 0\<close> the sleep \<open>5 * k\<close> is the first multiple of the 5-second interval
  that reaches \<open>max_wait\<close>: never before the boundary, less than one interval after it,
  and exactly at it when \<open>max_wait\<close> is a multiple of 5. When the \<open>n\<close>-th answer
  (counted from 0) is the first to report a free slot and \<open>5 * n < max_wait\<close>, the
  function returns right after that request, having slept \<open>5 * n\<close> seconds.
\<close>

theorem wait_for_slot_timeout:
  "((\<forall>n. check_availability (status n) \<noteq> Some True) \<longrightarrow>
      wait_for_slot status max_wait
        = (Inl TimeoutError, nat ((max_wait + 4) div 5), 5 * int (nat ((max_wait + 4) div 5)))
      \<and> (max_wait \<le> 0 \<longrightarrow> wait_for_slot status max_wait = (Inl TimeoutError, 0, 0))
      \<and> (0 < max_wait \<longrightarrow>
           (\<exists>k. wait_for_slot status max_wait = (Inl TimeoutError, k, 5 * int k)
              \<and> 5 * (int k - 1) < max_wait \<and> max_wait \<le> 5 * int k
              \<and> (5 dvd max_wait \<longrightarrow> 5 * int k = max_wait))))
   \<and> (check_availability (status n) = Some True
        \<and> (\<forall>j<n. check_availability (status j) \<noteq> Some True) \<and> 5 * int n < max_wait \<longrightarrow>
      wait_for_slot status max_wait = (Inr (), Suc n, 5 * int n))"
proof (intro conjI impI)
  assume never: "\<forall>n. check_availability (status n) \<noteq> Some True"
  let ?k = "nat ((max_wait + 4) div 5)"
  show run: "wait_for_slot status max_wait = (Inl TimeoutError, ?k, 5 * int ?k)"
    using wait_loop_never [of status max_wait 0 0] never by (simp add: wait_for_slot_def)
  {
    assume "max_wait \<le> 0"
    then have "?k = 0" by linarith
    with run show "wait_for_slot status max_wait = (Inl TimeoutError, 0, 0)" by simp
  }
  {
    assume pos: "0 < max_wait"
    then have "int ?k = (max_wait + 4) div 5" by simp
    moreover have "5 * ((max_wait + 4) div 5) \<le> max_wait + 4" by simp
    ultimately have "5 * (int ?k - 1) < max_wait" by simp
    moreover have "max_wait \<le> 5 * int ?k" by linarith
    moreover have "5 dvd max_wait \<longrightarrow> 5 * int ?k = max_wait"
      using pos by (auto elim!: dvdE)
    ultimately show "\<exists>k. wait_for_slot status max_wait = (Inl TimeoutError, k, 5 * int k)
              \<and> 5 * (int k - 1) < max_wait \<and> max_wait \<le> 5 * int k
              \<and> (5 dvd max_wait \<longrightarrow> 5 * int k = max_wait)"
      using run by blast
  }
next
  assume "check_availability (status n) = Some True
        \<and> (\<forall>j<n. check_availability (status j) \<noteq> Some True) \<and> 5 * int n < max_wait"
  then show "wait_for_slot status max_wait = (Inr (), Suc n, 5 * int n)"
    using wait_loop_first [of status 0 n 0 max_wait] by (simp add: wait_for_slot_def)
qed

theorem wait_for_slot_timeout_witness:
  "wait_for_slot always_busy 60 = (Inl TimeoutError, 12, 60)
   \<and> wait_for_slot always_busy 7 = (Inl TimeoutError, 2, 10)
   \<and> wait_for_slot always_busy (- 7) = (Inl TimeoutError, 0, 0)
   \<and> wait_for_slot (free_from 2) 60 = (Inr (), 3, 10)"
proof -
  have never: "\<forall>n. check_availability (always_busy n) \<noteq> Some True"
    by (simp add: always_busy_def)
  have free: "check_availability (free_from 2 2) = Some True"
    by (simp add: free_from_def)
  have busy: "\<forall>j<2. check_availability (free_from 2 j) \<noteq> Some True"
    by (simp add: free_from_def)
  from wait_for_slot_timeout [of always_busy 60 0] never
  have a: "wait_for_slot always_busy 60 = (Inl TimeoutError, 12, 60)" by simp
  from wait_for_slot_timeout [of always_busy 7 0] never
  have b: "wait_for_slot always_busy 7 = (Inl TimeoutError, 2, 10)" by simp
  from wait_for_slot_timeout [of always_busy "- 7" 0] never
  have c: "wait_for_slot always_busy (- 7) = (Inl TimeoutError, 0, 0)" by simp
  from wait_for_slot_timeout [of "free_from 2" 60 2] free busy
  have d: "wait_for_slot (free_from 2) 60 = (Inr (), 3, 10)" by simp
  from a b c d show ?thesis by simp
qed

section \<open>Properties of geometry decoding\<close>

lemma finite_num_iff: "finite_num n \<longleftrightarrow> (\<exists>r. n = Fin r)"
  by (cases n) auto

lemma check_coords_numbers: "check_coords c \<Longrightarrow> n \<in> set (numbers c) \<Longrightarrow> finite_num n"
  by (induction c arbitrary: n) (auto simp: list_all_iff)

lemma map_sum_id_Inr: "map_sum id f x = Inr y \<longleftrightarrow> (\<exists>v. x = Inr v \<and> y = f v)"
  by (cases x) auto

lemma make_record_geometry:
  "make_record el geom = Inr r \<Longrightarrow> map_of r ''geometry'' = Some (Geom geom)"
  by (auto simp: make_record_def Let_def update_conv' split: option.splits pyval.splits)

lemma decode_element_valid:
  assumes "decode_element lib e = Inr (Some r)"
  shows "\<exists>g. map_of r ''geometry'' = Some (Geom g) \<and> is_valid_geometry lib g"
  using assms
  by (auto simp: decode_element_def map_sum_id_Inr dest: make_record_geometry
      split: pyval.splits sum.splits option.splits if_splits)

lemma decode_loop_valid:
  assumes "decode_loop lib es acc printed = Inr (rows, out)"
    and "\<forall>r \<in> set acc. \<exists>g. map_of r ''geometry'' = Some (Geom g) \<and> is_valid_geometry lib g"
  shows "\<forall>r \<in> set rows. \<exists>g. map_of r ''geometry'' = Some (Geom g) \<and> is_valid_geometry lib g"
  using assms
proof (induction es arbitrary: acc printed)
  case Nil
  then show ?case by simp
next
  case (Cons e es)
  show ?case
  proof (cases "decode_element lib e")
    case (Inl err)
    with Cons.prems(1) obtain el where "e = PDict el"
      and "decode_loop lib es acc (printed @ [(map_of el ''id'', err)]) = Inr (rows, out)"
      by (cases e) auto
    then show ?thesis using Cons.IH Cons.prems(2) by blast
  next
    case (Inr res)
    show ?thesis
    proof (cases res)
      case None
      with Inr Cons.prems(1) have "decode_loop lib es acc printed = Inr (rows, out)" by simp
      then show ?thesis using Cons.IH Cons.prems(2) by blast
    next
      case (Some r)
      with Inr Cons.prems(1) have run: "decode_loop lib es (acc @ [r]) printed = Inr (rows, out)"
        by simp
      from Inr Some have "\<exists>g. map_of r ''geometry'' = Some (Geom g) \<and> is_valid_geometry lib g"
        using decode_element_valid by blast
      with Cons.prems(2)
      have "\<forall>r \<in> set (acc @ [r]).
              \<exists>g. map_of r ''geometry'' = Some (Geom g) \<and> is_valid_geometry lib g"
        by auto
      with run show ?thesis using Cons.IH by blast
    qed
  qed
qed

lemma json_to_geodataframe_valid:
  assumes "json_to_geodataframe lib osm_json = Inr rows" and "r \<in> set rows"
  shows "\<exists>g. map_of r ''geometry'' = Some (Geom g) \<and> is_valid_geometry lib g"
proof -
  from assms(1) obtain out where log: "json_to_geodataframe_log lib osm_json = Inr (rows, out)"
    by (cases "json_to_geodataframe_log lib osm_json") (auto simp: json_to_geodataframe_def)
  then obtain d where d: "osm_json = PDict d"
    by (cases osm_json) (auto simp: json_to_geodataframe_log_def)
  let ?els = "case map_of d ''elements'' of None \<Rightarrow> PList [] | Some es \<Rightarrow> es"
  show ?thesis
  proof (cases "truthy ?els")
    case False
    with log d have "rows = []" by (simp add: json_to_geodataframe_log_def Let_def)
    with assms(2) show ?thesis by simp
  next
    case True
    with log d obtain es where "decode_loop lib es [] [] = Inr (rows, out)"
      by (auto simp: json_to_geodataframe_log_def Let_def split: sum.splits option.splits)
    from decode_loop_valid [OF this] assms(2) show ?thesis by simp
  qed
qed

text \<open>
  Claim C1. Whatever the batch and whatever the geometry library builds, every row that
  \<open>json_to_geodataframe\<close> returns holds under \<open>geometry\<close> a geometry that passed
  \<open>is_valid_geometry\<close>, so that every number among its coordinates, at any depth of
  nesting, is finite.
\<close>

theorem decoded_coordinates_finite:
  "json_to_geodataframe lib osm_json = Inr rows \<Longrightarrow> r \<in> set rows \<Longrightarrow>
   \<exists>g. map_of r ''geometry'' = Some (Geom g)
     \<and> check_coords (coordinates lib g)
     \<and> (\<forall>n \<in> set (numbers (coordinates lib g)). \<exists>x. n = Fin x)"
  using json_to_geodataframe_valid [of lib osm_json rows r]
  by (auto simp: is_valid_geometry_def finite_num_iff [symmetric] dest: check_coords_numbers)

theorem decoded_coordinates_finite_witness:
  "json_to_geodataframe plain_library
     (PDict [(''elements'', PList [node_element (Fin 2) NaN [], node_element (Fin 2) (Fin 1) [],
        way_element [pt 0 0, PDict [(''lat'', PNum PInf), (''lon'', PNum (Fin 5))], pt 1 1]])])
   = Inr [[(''id'', Val (PNum (Fin 7))), (''geometry'', Geom (GPoint (Fin 2) (Fin 1)))],
          [(''id'', Val (PNum (Fin 42))), (''highway'', Val (PStr ''path'')),
           (''geometry'', Geom (GLineString [(Fin 0, Fin 0), (Fin 1, Fin 1)]))]]
   \<and> numbers (coordinates plain_library (GLineString [(Fin 0, Fin 0), (Fin 1, Fin 1)]))
       = [Fin 0, Fin 0, Fin 1, Fin 1]"
  using decoded_coordinates_finite [of plain_library
      "PDict [(''elements'', PList [node_element (Fin 2) NaN [], node_element (Fin 2) (Fin 1) [],
        way_element [pt 0 0, PDict [(''lat'', PNum PInf), (''lon'', PNum (Fin 5))], pt 1 1]])]"
      "[[(''id'', Val (PNum (Fin 7))), (''geometry'', Geom (GPoint (Fin 2) (Fin 1)))],
          [(''id'', Val (PNum (Fin 42))), (''highway'', Val (PStr ''path'')),
           (''geometry'', Geom (GLineString [(Fin 0, Fin 0), (Fin 1, Fin 1)]))]]"
      "[(''id'', Val (PNum (Fin 42))), (''highway'', Val (PStr ''path'')),
           (''geometry'', Geom (GLineString [(Fin 0, Fin 0), (Fin 1, Fin 1)]))]"]
  by (simp add: json_to_geodataframe_def json_to_geodataframe_log_def decode_element_def
      element_geometry_def way_geometry_def make_record_def is_valid_geometry_def
      plain_library_def node_element_def way_element_def pt_def pair_coord_def)

lemma lon_lat_SomeD:
  "lon_lat p = Some (x, y) \<Longrightarrow>
   \<exists>d. p = PDict d \<and> map_of d ''lon'' = Some (PNum x) \<and> map_of d ''lat'' = Some (PNum y)"
  by (cases p) (auto split: option.splits pyval.splits)

lemma way_coords_append_well_formed:
  "map lon_lat good = map Some ps \<Longrightarrow>
   way_coords (good @ rest) =
     (case way_coords rest of Inl e \<Rightarrow> Inl e | Inr cs \<Rightarrow> Inr (finite_points ps @ cs))"
proof (induction good arbitrary: ps)
  case Nil
  then show ?case by (simp add: finite_points_def split: sum.splits)
next
  case (Cons p good)
  then obtain xy ps' where ps: "ps = xy # ps'" and p: "lon_lat p = Some xy"
    and rest: "map lon_lat good = map Some ps'"
    by (cases ps) auto
  obtain x y where xy: "xy = (x, y)" by (cases xy)
  from p xy obtain d where d: "p = PDict d" "map_of d ''lon'' = Some (PNum x)"
    "map_of d ''lat'' = Some (PNum y)"
    using lon_lat_SomeD by blast
  from Cons.IH [OF rest] d ps xy show ?case
    by (auto simp: finite_points_def split: bool.splits sum.splits)
qed





lemma way_coords_lacks_key_head: "lacks_key p \<Longrightarrow> way_coords (p # pts) = Inl KeyError"
  by (cases p) (auto split: option.splits)

lemma way_coords_Cons_Inl: "way_coords pts = Inl e \<Longrightarrow> \<exists>e'. way_coords (p # pts) = Inl e'"
  by (auto split: sum.splits bool.splits)

lemma way_coords_lacks_key: "p \<in> set pts \<Longrightarrow> lacks_key p \<Longrightarrow> \<exists>e. way_coords pts = Inl e"
proof (induction pts)
  case Nil
  then show ?case by simp
next
  case (Cons a pts)
  show ?case
  proof (cases "a = p")
    case True
    with Cons.prems(2) show ?thesis using way_coords_lacks_key_head by blast
  next
    case False
    with Cons.prems have "p \<in> set pts" by simp
    with Cons.IH Cons.prems(2) obtain e where "way_coords pts = Inl e" by blast
    then show ?thesis by (rule way_coords_Cons_Inl)
  qed
qed

lemma way_coords_KeyError:
  "map lon_lat good = map Some ps \<Longrightarrow> lacks_key p \<Longrightarrow>
   way_coords (good @ p # rest) = Inl KeyError"
  by (simp add: way_coords_append_well_formed way_coords_lacks_key_head del: way_coords.simps)

lemma decode_loop_handler:
  "decode_element lib (PDict el) = Inl e \<Longrightarrow>
   decode_loop lib (PDict el # es) rows printed
     = decode_loop lib es rows (printed @ [(map_of el ''id'', e)])"
  by simp

text \<open>
  Claim C9, as stated, fails: a point that has no \<open>lat\<close> and whose \<open>lon\<close> is not
  finite is never asked for its \<open>lat\<close>. The way below keeps its two good points and
  becomes a row; nothing is printed.
\<close>

theorem way_missing_lat_counterexample:
  "json_to_geodataframe_log plain_library
     (PDict [(''elements'', PList [way_element [pt 0 0, PDict [(''lon'', PNum NaN)], pt 1 1]])])
   = Inr ([[(''id'', Val (PNum (Fin 42))), (''highway'', Val (PStr ''path'')),
            (''geometry'', Geom (GLineString [(Fin 0, Fin 0), (Fin 1, Fin 1)]))]], [])"
  by (simp add: json_to_geodataframe_log_def decode_element_def element_geometry_def
      way_geometry_def make_record_def is_valid_geometry_def plain_library_def way_element_def
      pt_def pair_coord_def)

text \<open>
  Claim C9, amended. When the point list of a way holds a dict without \<open>lon\<close>, or a
  dict without \<open>lat\<close> whose \<open>lon\<close> is finite, the body of the loop raises for that
  element, the handler prints the element's id with the exception, no row is added, and
  the loop goes on with the remaining elements. The exception is \<open>KeyError\<close> when the
  points before that one are well formed.
\<close>

theorem way_missing_key_dropped:
  assumes "map_of el ''type'' = Some (PStr ''way'')"
    and "map_of el ''geometry'' = Some (PList pts)"
    and "p \<in> set pts" and "lacks_key p"
  shows "\<exists>e. decode_element lib (PDict el) = Inl e
     \<and> (\<forall>es rows printed. decode_loop lib (PDict el # es) rows printed
            = decode_loop lib es rows (printed @ [(map_of el ''id'', e)]))
     \<and> (\<forall>good rest ps. pts = good @ p # rest \<and> map lon_lat good = map Some ps
            \<longrightarrow> e = KeyError)"
proof -
  from way_coords_lacks_key [OF assms(3,4)] obtain e where e: "way_coords pts = Inl e" by blast
  with assms(1,2) have dec: "decode_element lib (PDict el) = Inl e"
    by (simp add: decode_element_def element_geometry_def way_geometry_def)
  have "e = KeyError" if "pts = good @ p # rest" "map lon_lat good = map Some ps"
    for good rest ps
    using way_coords_KeyError [OF that(2) assms(4), of rest] that(1) e by simp
  with dec decode_loop_handler [OF dec] show ?thesis by blast
qed

theorem way_missing_key_dropped_witness:
  "lacks_key (PDict [(''lon'', PNum (Fin 3))])
   \<and> decode_element plain_library
        (way_element [pt 0 0, PDict [(''lon'', PNum (Fin 3))], pt 1 1]) = Inl KeyError
   \<and> json_to_geodataframe_log plain_library
        (PDict [(''elements'', PList [way_element [pt 0 0, PDict [(''lon'', PNum (Fin 3))], pt 1 1],
                                     node_element (Fin 2) (Fin 1) []])])
      = Inr ([[(''id'', Val (PNum (Fin 7))), (''geometry'', Geom (GPoint (Fin 2) (Fin 1)))]],
             [(Some (PNum (Fin 42)), KeyError)])"
  using way_missing_key_dropped [of
      "[(''type'', PStr ''way''), (''id'', PNum (Fin 42)),
        (''geometry'', PList [pt 0 0, PDict [(''lon'', PNum (Fin 3))], pt 1 1]),
        (''tags'', PDict [(''highway'', PStr ''path'')])]"
      "[pt 0 0, PDict [(''lon'', PNum (Fin 3))], pt 1 1]"
      "PDict [(''lon'', PNum (Fin 3))]" plain_library]
  by (simp add: json_to_geodataframe_log_def decode_element_def element_geometry_def
      way_geometry_def make_record_def is_valid_geometry_def plain_library_def way_element_def
      node_element_def pt_def pair_coord_def)

text \<open>
  Claim C3 at a node whose tags hold the keys \<open>id\<close> and \<open>geometry\<close>: the row carries
  the geometry that was built, not the tag, but under \<open>id\<close> it carries the tag \<open>x\<close>
  and not the element's id 7.
\<close>

theorem reserved_id_overwritten:
  "json_to_geodataframe plain_library
     (PDict [(''elements'', PList [node_element (Fin 2) (Fin 1)
        [(''id'', PStr ''x''), (''geometry'', PStr ''g''), (''amenity'', PStr ''cafe'')]])])
   = Inr [[(''id'', Val (PStr ''x'')), (''geometry'', Geom (GPoint (Fin 2) (Fin 1))),
           (''amenity'', Val (PStr ''cafe''))]]"
  by (simp add: json_to_geodataframe_def json_to_geodataframe_log_def decode_element_def
      element_geometry_def make_record_def is_valid_geometry_def plain_library_def
      node_element_def)

section \<open>Properties of query construction\<close>

lemma strip_template:
  "strip (nl @ CHR ''['' # xs @ '';'' @ nl) = CHR ''['' # xs @ '';''"
  by (simp add: strip_def nl_def is_space_def)

lemma build_query_text:
  "build_main_query q = Inr main_part \<Longrightarrow>
   \<exists>header footer. build_query q =
     Inr (header @ nl @ build_area_query q @ nl @ ''('' @ nl @ ''    '' @ main_part @ nl
          @ '');'' @ nl @ footer)"
proof -
  assume main: "build_main_query q = Inr main_part"
  let ?body = "nl @ build_area_query q @ nl @ ''('' @ nl @ ''    '' @ main_part @ nl @ '');'' @ nl"
  consider (csv) "output_format q = ''csv'' \<and> csv_fields q \<noteq> None \<and> csv_fields q \<noteq> Some []"
    | (geom) "\<not> (output_format q = ''csv'' \<and> csv_fields q \<noteq> None \<and> csv_fields q \<noteq> Some [])"
        "output_format q = ''json'' \<and> parse_geometry q"
    | (body) "\<not> (output_format q = ''csv'' \<and> csv_fields q \<noteq> None \<and> csv_fields q \<noteq> Some [])"
        "\<not> (output_format q = ''json'' \<and> parse_geometry q)"
    by blast
  then show ?thesis
  proof cases
    case csv
    let ?h = "''[out:csv('' @ join '','' (the (csv_fields q)) @ '')][timeout:''
                @ str_int (timeout q) @ ''];''"
    have "build_query q = Inr (?h @ ?body @ ''out center;'')"
      using main csv
        strip_template [of "''out:csv('' @ join '','' (the (csv_fields q)) @ '')][timeout:''
                @ str_int (timeout q) @ ''];'' @ ?body @ ''out center''"]
      by (simp add: build_query_def)
    then show ?thesis by (metis append.assoc)
  next
    case geom
    let ?h = "''[out:json][timeout:'' @ str_int (timeout q) @ ''];''"
    have "build_query q = Inr (?h @ ?body @ ''out geom;'')"
      using main geom
        strip_template [of "''out:json][timeout:'' @ str_int (timeout q) @ ''];'' @ ?body
                @ ''out geom''"]
      by (auto simp: build_query_def)
    then show ?thesis by (metis append.assoc)
  next
    case body
    let ?h = "''[out:'' @ output_format q @ ''][timeout:'' @ str_int (timeout q) @ ''];''"
    have "build_query q
        = Inr (?h @ ?body @ (''out body;'' @ nl @ ''>;'' @ nl @ ''out skel qt;''))"
      using main body
        strip_template [of "''out:'' @ output_format q @ ''][timeout:'' @ str_int (timeout q)
                @ ''];'' @ ?body @ ''out body;'' @ nl @ ''>;'' @ nl @ ''out skel qt''"]
      by (auto simp: build_query_def)
    then show ?thesis by (metis append.assoc)
  qed
qed

lemma wait_loop_result:
  "wait_for_slot_loop status max_wait polls waited = (r, p, w) \<Longrightarrow>
   (r = Inr () \<and> polls < p) \<or> r = Inl TimeoutError"
proof (induction status max_wait polls waited rule: wait_for_slot_loop.induct)
  case (1 status max_wait polls waited)
  show ?case
  proof (cases "waited < max_wait \<and> check_availability (status polls) \<noteq> Some True")
    case True
    with "1.prems" have "wait_for_slot_loop status max_wait (Suc polls) (waited + 5) = (r, p, w)"
      by (subst (asm) wait_for_slot_loop.simps) simp
    with "1.IH" True show ?thesis by fastforce
  next
    case False
    with "1.prems" show ?thesis
      by (subst (asm) wait_for_slot_loop.simps) (auto split: if_splits)
  qed
qed

lemma run_build_failure:
  assumes "build_query q = Inl e"
  shows "requests (run lib q status server) = 0
     \<and> (fst (wait_for_slot status 60) = Inr () \<longrightarrow>
          returned (run lib q status server) = Inl e
          \<and> 0 < status_requests (run lib q status server))
     \<and> (fst (wait_for_slot status 60) \<noteq> Inr () \<longrightarrow>
          returned (run lib q status server) = Inl TimeoutError)"
proof -
  obtain r p w where res: "wait_for_slot status 60 = (r, p, w)"
    by (cases "wait_for_slot status 60")
  then have "(r = Inr () \<and> 0 < p) \<or> r = Inl TimeoutError"
    using wait_loop_result [of status 60 0 0 r p w] by (simp add: wait_for_slot_def)
  with res assms show ?thesis by (auto simp: run_def)
qed

text \<open>
  Claim C8, as stated, fails for \<open>run\<close>: it waits for a slot before it builds the
  query. For a query with neither a bounding box nor an area name, the failure of the
  build comes after a request to the status endpoint, and when no slot gets free it does
  not come at all: the call ends in \<open>TimeoutError\<close> after twelve requests.
\<close>

theorem build_failure_after_polling_counterexample:
  "run plain_library (OverpassQuery [] []) (free_from 0) unreachable
     = \<lparr> returned = Inl ValueError, status_requests = 1, requests = 0, sleeps = [] \<rparr>
   \<and> run plain_library (OverpassQuery [] []) always_busy unreachable
     = \<lparr> returned = Inl TimeoutError, status_requests = 12, requests = 0, sleeps = [] \<rparr>"
  by (simp add: run_def wait_for_slot_def free_from_def always_busy_def OverpassQuery_def
      build_query_def build_main_query_def)

text \<open>
  Claim C8, amended. With neither a (non-empty) bounding box nor an area name, building
  the query raises \<open>ValueError\<close>. The asynchronous client builds the query first and so
  fails without any request. \<open>run\<close> sends no request to the query server either, but it
  has polled the status endpoint before: it raises the \<open>ValueError\<close> after at least one
  status request when the gate lets it pass, and \<open>TimeoutError\<close> when it does not. A
  bounding box of four components is rendered as \<open>(s,w,n,e)\<close>, each component as
  \<open>str\<close> prints it. Without a bounding box and with an area name, the location is
  \<open>(area)\<close>, and in the query text the statement that selects the area by its name
  stands before the block of the element statements.
\<close>

theorem build_query_location:
  "((bbox q = None \<or> bbox q = Some []) \<and> area_name q = [] \<longrightarrow>
      build_main_query q = Inl ValueError
      \<and> build_query q = Inl ValueError
      \<and> run_query lib q session
          = \<lparr> returned = Inl ValueError, status_requests = 0, requests = 0, sleeps = [] \<rparr>
      \<and> requests (run lib q status server) = 0
      \<and> (fst (wait_for_slot status 60) = Inr () \<longrightarrow>
           returned (run lib q status server) = Inl ValueError
           \<and> 0 < status_requests (run lib q status server))
      \<and> (fst (wait_for_slot status 60) \<noteq> Inr () \<longrightarrow>
           returned (run lib q status server) = Inl TimeoutError))
   \<and> (bbox q = Some [s, w, n, e] \<longrightarrow>
        build_main_query q
          = Inr (join ''\<newline>'' (map (\<lambda>et. et @ format_tags q @ ''('' @ str_bound s @ '',''
                   @ str_bound w @ '','' @ str_bound n @ '','' @ str_bound e @ '');'')
                 (element_types q))))
   \<and> ((bbox q = None \<or> bbox q = Some []) \<and> area_name q \<noteq> [] \<longrightarrow>
        build_main_query q
          = Inr (join ''\<newline>'' (map (\<lambda>et. et @ format_tags q @ ''(area);'') (element_types q)))
        \<and> (\<exists>header footer. build_query q =
              Inr (header @ nl @ ''area[name='' @ [CHR 0x22] @ area_name q @ [CHR 0x22]
                   @ ''][admin_level];'' @ nl @ ''('' @ nl @ ''    ''
                   @ join ''\<newline>'' (map (\<lambda>et. et @ format_tags q @ ''(area);'') (element_types q))
                   @ nl @ '');'' @ nl @ footer)))"
proof (intro conjI impI)
  assume none: "(bbox q = None \<or> bbox q = Some []) \<and> area_name q = []"
  then show main: "build_main_query q = Inl ValueError"
    by (auto simp: build_main_query_def)
  then show build: "build_query q = Inl ValueError"
    by (simp add: build_query_def)
  then show "run_query lib q session
      = \<lparr> returned = Inl ValueError, status_requests = 0, requests = 0, sleeps = [] \<rparr>"
    by (simp add: run_query_def)
  from run_build_failure [OF build, of lib status server]
  show "requests (run lib q status server) = 0" by simp
  {
    assume "fst (wait_for_slot status 60) = Inr ()"
    with run_build_failure [OF build, of lib status server]
    show "returned (run lib q status server) = Inl ValueError"
      and "0 < status_requests (run lib q status server)"
      by simp_all
  }
  {
    assume "fst (wait_for_slot status 60) \<noteq> Inr ()"
    with run_build_failure [OF build, of lib status server]
    show "returned (run lib q status server) = Inl TimeoutError" by simp
  }
next
  assume "bbox q = Some [s, w, n, e]"
  then show "build_main_query q
      = Inr (join ''\<newline>'' (map (\<lambda>et. et @ format_tags q @ ''('' @ str_bound s @ '',''
               @ str_bound w @ '','' @ str_bound n @ '','' @ str_bound e @ '');'')
             (element_types q)))"
    by (simp add: build_main_query_def)
next
  assume area: "(bbox q = None \<or> bbox q = Some []) \<and> area_name q \<noteq> []"
  then show main: "build_main_query q
      = Inr (join ''\<newline>'' (map (\<lambda>et. et @ format_tags q @ ''(area);'') (element_types q)))"
    by (auto simp: build_main_query_def)
  from build_query_text [OF main] area
  show "\<exists>header footer. build_query q =
          Inr (header @ nl @ ''area[name='' @ [CHR 0x22] @ area_name q @ [CHR 0x22]
               @ ''][admin_level];'' @ nl @ ''('' @ nl @ ''    ''
               @ join ''\<newline>'' (map (\<lambda>et. et @ format_tags q @ ''(area);'') (element_types q))
               @ nl @ '');'' @ nl @ footer)"
    by (simp add: build_area_query_def)
qed

lemma str_int_examples: "str_int 25 = ''25'' \<and> str_int 48 = ''48'' \<and> str_int 49 = ''49'' \<and> str_int 12 = ''12''"
  by code_simp

theorem build_query_location_witness:
  "run_query plain_library (OverpassQuery [] []) unreachable
     = \<lparr> returned = Inl ValueError, status_requests = 0, requests = 0, sleeps = [] \<rparr>
   \<and> returned (run plain_library (OverpassQuery [] []) (free_from 1) unreachable) = Inl ValueError
   \<and> build_main_query
        ((OverpassQuery [] [(''amenity'', PStr ''cafe'')])
          \<lparr>bbox := Some [BInt 48, BFloat ''11.5'', BInt 49, BInt 12]\<rparr>)
     = Inr (''node[amenity='' @ [CHR 0x22] @ ''cafe'' @ [CHR 0x22] @ ''](48,11.5,49,12);''
            @ ''\<newline>'' @ ''way[amenity='' @ [CHR 0x22] @ ''cafe'' @ [CHR 0x22]
            @ ''](48,11.5,49,12);'' @ ''\<newline>'' @ ''relation[amenity='' @ [CHR 0x22]
            @ ''cafe'' @ [CHR 0x22] @ ''](48,11.5,49,12);'')
   \<and> build_main_query ((OverpassQuery ''Berlin'' [(''shop'', PBool True)])
          \<lparr>element_types := [''node'']\<rparr>)
     = Inr ''node[shop](area);''
   \<and> build_query ((OverpassQuery ''Berlin'' [(''shop'', PBool True)])
          \<lparr>element_types := [''node'']\<rparr>)
     = Inr (''[out:json][timeout:25];'' @ nl @ ''area[name='' @ [CHR 0x22] @ ''Berlin''
            @ [CHR 0x22] @ ''][admin_level];'' @ nl @ ''('' @ nl @ ''    node[shop](area);''
            @ nl @ '');'' @ nl @ ''out body;'' @ nl @ ''>;'' @ nl @ ''out skel qt;'')"
proof -
  have gate: "fst (wait_for_slot (free_from 1) 60) = Inr ()"
    by (simp add: wait_for_slot_def free_from_def)
  have built: "build_query ((OverpassQuery ''Berlin'' [(''shop'', PBool True)])
          \<lparr>element_types := [''node'']\<rparr>)
     = Inr (''[out:json][timeout:25];'' @ nl @ ''area[name='' @ [CHR 0x22] @ ''Berlin''
            @ [CHR 0x22] @ ''][admin_level];'' @ nl @ ''('' @ nl @ ''    node[shop](area);''
            @ nl @ '');'' @ nl @ ''out body;'' @ nl @ ''>;'' @ nl @ ''out skel qt;'')"
    by (simp add: build_query_def build_main_query_def build_area_query_def format_tags_def
        OverpassQuery_def strip_def nl_def is_space_def str_int_examples)
  from gate built
    build_query_location [where q = "OverpassQuery [] []" and lib = plain_library
      and session = unreachable and status = "free_from 1" and server = unreachable]
    build_query_location [where q = "(OverpassQuery [] [(''amenity'', PStr ''cafe'')])
          \<lparr>bbox := Some [BInt 48, BFloat ''11.5'', BInt 49, BInt 12]\<rparr>"
      and s = "BInt 48" and w = "BFloat ''11.5''" and n = "BInt 49" and e = "BInt 12"]
    build_query_location [where q = "(OverpassQuery ''Berlin'' [(''shop'', PBool True)])
          \<lparr>element_types := [''node'']\<rparr>"]
  show ?thesis
    by (simp add: OverpassQuery_def format_tags_def startswith_tilde_def has_bar_def
        str_int_examples)
qed

section \<open>Properties of execution\<close>

lemma build_query_area:
  "area_name q \<noteq> [] \<Longrightarrow> \<exists>query. build_query q = Inr query"
proof -
  assume "area_name q \<noteq> []"
  then have "build_main_query q
      = Inr (join ''\<newline>'' (map (\<lambda>et. et @ format_tags q
               @ (if bbox q \<noteq> None \<and> bbox q \<noteq> Some []
                  then ''('' @ join '','' (map str_bound (the (bbox q))) @ '')'' else ''(area)'')
               @ '';'') (element_types q)))"
    by (simp add: build_main_query_def)
  from build_query_text [OF this] show ?thesis by blast
qed

lemma run_query_built:
  "build_query q = Inr query \<Longrightarrow>
   run_query lib q session =
     (case run_query_attempts lib q session (nat (max_retries q)) 0 [] of
        (r, sent, slept) \<Rightarrow>
          \<lparr> returned = r, status_requests = 0, requests = sent, sleeps = slept \<rparr>)"
  by (simp add: run_query_def)

lemma run_built:
  "build_query q = Inr query \<Longrightarrow> wait_for_slot status 60 = (Inr (), polls, waited) \<Longrightarrow>
   run lib q status server =
     (case run_attempts lib q server (nat (max_retries q)) 0 [] of
        (r, sent, slept) \<Rightarrow>
          \<lparr> returned = r, status_requests = polls, requests = sent, sleeps = slept \<rparr>)"
  by (simp add: run_def)

lemma berlin_built: "\<exists>query. build_query (OverpassQuery ''Berlin'' []) = Inr query"
  by (rule build_query_area) (simp add: OverpassQuery_def)

lemma free_at_once: "wait_for_slot (free_from 0) 60 = (Inr (), 1, 0)"
  by (simp add: wait_for_slot_def free_from_def)

text \<open>
  Claim C2 at a server that answers every request with status 404, for a query with the
  default three attempts and delay of 10 seconds: \<open>_run_query\<close> of the asynchronous
  client sleeps and tries again after each answer, three requests and three sleeps in
  all, where \<open>run\<close> returns \<open>None\<close> after the first answer. On the answers 503, 503,
  200 both succeed with the third request after two sleeps.
\<close>

theorem async_retries_not_found:
  "run_query plain_library (OverpassQuery ''Berlin'' []) (always_status 404)
     = \<lparr> returned = Inr None, status_requests = 0, requests = 3, sleeps = [10, 10, 10] \<rparr>
   \<and> run plain_library (OverpassQuery ''Berlin'' []) (free_from 0) (always_status 404)
     = \<lparr> returned = Inr None, status_requests = 1, requests = 1, sleeps = [] \<rparr>
   \<and> run_query plain_library (OverpassQuery ''Berlin'' [])
       (answers [always_status 503 0, always_status 503 1, always_status 200 2])
     = \<lparr> returned = Inr (Some (Data (PDict []))), status_requests = 0, requests = 3,
         sleeps = [10, 10] \<rparr>
   \<and> run plain_library (OverpassQuery ''Berlin'' []) (free_from 0)
       (answers [always_status 503 0, always_status 503 1, always_status 200 2])
     = \<lparr> returned = Inr (Some (Data (PDict []))), status_requests = 1, requests = 3,
         sleeps = [10, 10] \<rparr>"
proof -
  from berlin_built obtain query where built: "build_query (OverpassQuery ''Berlin'' []) = Inr query"
    by blast
  show ?thesis
    unfolding run_query_built [OF built] run_built [OF built free_at_once]
    by (simp add: always_status_def answers_def OverpassQuery_def on_success_def numeral_3_eq_3)
qed

lemma gather_Inr: "gather xs = Inr vs \<longleftrightarrow> xs = map Inr vs"
proof (induction xs arbitrary: vs)
  case Nil
  then show ?case by auto
next
  case (Cons x xs)
  show ?case
  proof (cases x)
    case (Inl e)
    then show ?thesis by (cases vs) auto
  next
    case (Inr v)
    show ?thesis
    proof (cases "gather xs")
      case (Inl e)
      with Cons.IH have "xs \<noteq> map Inr ws" for ws by auto
      with Inl Inr show ?thesis by (cases vs) auto
    next
      case gathered: (Inr ws)
      with Cons.IH [of ws] have "xs = map Inr ws" by blast
      with gathered Inr show ?thesis by (cases vs) (auto simp: inj_map_eq_map)
    qed
  qed
qed

lemma gather_Inl: "(\<exists>e. gather xs = Inl e) \<longleftrightarrow> (\<exists>e. Inl e \<in> set xs)"
  by (induction xs) (auto split: sum.splits)

lemma outcomes_Inl:
  "(\<exists>e. Inl e \<in> set (map (\<lambda>(q, session). returned (run_query lib q session)) queries))
   \<longleftrightarrow> (\<exists>(q, session) \<in> set queries. \<exists>e. returned (run_query lib q session) = Inl e)"
proof (intro iffI)
  assume "\<exists>e. Inl e \<in> set (map (\<lambda>(q, session). returned (run_query lib q session)) queries)"
  then obtain e q session where mem: "(q, session) \<in> set queries"
    and "Inl e = returned (run_query lib q session)"
    by auto
  then have "\<exists>e. returned (run_query lib q session) = Inl e" by (intro exI [of _ e]) simp
  with mem show "\<exists>(q, session) \<in> set queries. \<exists>e. returned (run_query lib q session) = Inl e"
    by blast
next
  assume "\<exists>(q, session) \<in> set queries. \<exists>e. returned (run_query lib q session) = Inl e"
  then obtain q session e where "(q, session) \<in> set queries"
    and "returned (run_query lib q session) = Inl e"
    by auto
  then have "Inl e \<in> set (map (\<lambda>(q, session). returned (run_query lib q session)) queries)"
    by force
  then show "\<exists>e. Inl e \<in> set (map (\<lambda>(q, session). returned (run_query lib q session)) queries)"
    by blast
qed

text \<open>
  Claim C7, as stated, fails: \<open>run_all\<close> hands the queries to \<open>asyncio.gather\<close>, which
  passes on the first exception. In the batch below the first query succeeds and the
  second has neither a bounding box nor an area name; \<open>run_all\<close> raises \<open>ValueError\<close>
  and the result of the first query is lost.
\<close>

theorem run_all_raises_counterexample:
  "returned (run_query plain_library (OverpassQuery ''Berlin'' []) (always_status 200))
     = Inr (Some (Data (PDict [])))
   \<and> run_all 5 plain_library
       [(OverpassQuery ''Berlin'' [], always_status 200), (OverpassQuery [] [], always_status 200)]
     = Some (Inl ValueError)"
proof -
  from berlin_built obtain query where built: "build_query (OverpassQuery ''Berlin'' []) = Inr query"
    by blast
  have "build_query (OverpassQuery [] []) = Inl ValueError"
    by (simp add: build_query_def build_main_query_def OverpassQuery_def)
  then have "returned (run_query plain_library (OverpassQuery [] []) (always_status 200))
      = Inl ValueError"
    by (simp add: run_query_def)
  moreover have "returned (run_query plain_library (OverpassQuery ''Berlin'' []) (always_status 200))
      = Inr (Some (Data (PDict [])))"
    unfolding run_query_built [OF built]
    by (simp add: always_status_def OverpassQuery_def on_success_def numeral_3_eq_3)
  ultimately show ?thesis by (simp add: run_all_def)
qed

text \<open>
  Claim C7, amended. For a client with at least one permit \<open>run_all\<close> returns or
  raises. It returns a list exactly when no query of the batch raises, and the list then
  holds, for each query and at its position in the batch, what that query returned, the
  \<open>None\<close> of a failed query included. It raises exactly when some query raises.
\<close>

theorem run_all_results:
  assumes "0 < max_concurrent"
  shows "(run_all max_concurrent lib queries = Some (Inr rs)
           \<longleftrightarrow> map (\<lambda>(q, session). returned (run_query lib q session)) queries = map Inr rs)
     \<and> (run_all max_concurrent lib queries = Some (Inr rs) \<longrightarrow>
          length rs = length queries
          \<and> (\<forall>i<length queries.
                returned (run_query lib (fst (queries ! i)) (snd (queries ! i))) = Inr (rs ! i)))
     \<and> ((\<exists>e. run_all max_concurrent lib queries = Some (Inl e))
           \<longleftrightarrow> (\<exists>(q, session) \<in> set queries. \<exists>e. returned (run_query lib q session) = Inl e))
     \<and> run_all max_concurrent lib queries \<noteq> None"
proof (intro conjI impI)
  let ?outcomes = "map (\<lambda>(q, session). returned (run_query lib q session)) queries"
  from assms have run: "run_all max_concurrent lib queries = Some (gather ?outcomes)"
    by (simp add: run_all_def)
  then show iff: "run_all max_concurrent lib queries = Some (Inr rs) \<longleftrightarrow> ?outcomes = map Inr rs"
    by (simp add: gather_Inr)
  from run show "run_all max_concurrent lib queries \<noteq> None" by simp
  from run show "(\<exists>e. run_all max_concurrent lib queries = Some (Inl e))
      \<longleftrightarrow> (\<exists>(q, session) \<in> set queries. \<exists>e. returned (run_query lib q session) = Inl e)"
    using outcomes_Inl [of lib queries] by (simp add: gather_Inl)
  {
    assume "run_all max_concurrent lib queries = Some (Inr rs)"
    with iff have eq: "?outcomes = map Inr rs" by simp
    then have "length ?outcomes = length (map Inr rs)" by simp
    then show len: "length rs = length queries" by simp
    show "\<forall>i<length queries.
        returned (run_query lib (fst (queries ! i)) (snd (queries ! i))) = Inr (rs ! i)"
    proof (intro allI impI)
      fix i assume i: "i < length queries"
      then have "returned (run_query lib (fst (queries ! i)) (snd (queries ! i))) = ?outcomes ! i"
        by (simp add: case_prod_beta)
      also have "\<dots> = map Inr rs ! i" by (simp only: eq)
      also from i len have "\<dots> = Inr (rs ! i)" by simp
      finally show "returned (run_query lib (fst (queries ! i)) (snd (queries ! i))) = Inr (rs ! i)" .
    qed
  }
qed

theorem run_all_results_witness:
  "run_all 5 plain_library
       [(OverpassQuery ''Berlin'' [], always_status 404),
        (OverpassQuery ''Berlin'' [], always_status 200),
        (OverpassQuery ''Berlin'' [], unreachable)]
     = Some (Inr [None, Some (Data (PDict [])), None])"
proof -
  from berlin_built obtain query where built: "build_query (OverpassQuery ''Berlin'' []) = Inr query"
    by blast
  have "map (\<lambda>(q, session). returned (run_query plain_library q session))
       [(OverpassQuery ''Berlin'' [], always_status 404),
        (OverpassQuery ''Berlin'' [], always_status 200),
        (OverpassQuery ''Berlin'' [], unreachable)]
     = map Inr [None, Some (Data (PDict [])), None]"
    unfolding list.map prod.case run_query_built [OF built]
    by (simp add: always_status_def unreachable_def OverpassQuery_def on_success_def
        numeral_3_eq_3)
  with run_all_results [of 5 plain_library
       "[(OverpassQuery ''Berlin'' [], always_status 404),
        (OverpassQuery ''Berlin'' [], always_status 200),
        (OverpassQuery ''Berlin'' [], unreachable)]"
       "[None, Some (Data (PDict [])), None]"]
  show ?thesis by simp
qed

end
